theory Spec2Isabelle
  imports Main "HOL-Library.Sublist"
begin

section \<open>Python string primitives used by convert.py\<close>

text \<open>
  A Python \<open>str\<close> is modelled as a \<open>string\<close>: a list of characters with code points
  below 256. The primitives below are the library calls of \<open>convert.py\<close>, written out
  with the results Python gives, including the not-found sentinel \<open>-1\<close> of \<open>find\<close> and
  the clamping of slice bounds.
\<close>

text \<open>\<open>s.startswith(p)\<close>.\<close>

definition startswith :: "string \<Rightarrow> string \<Rightarrow> bool" where
  "startswith s p = prefix p s"

text \<open>
  The lowest index at which \<open>sub\<close> occurs in the string, if it occurs at all
  (the search loop of \<open>find\<close> and of \<open>split\<close> with \<open>maxsplit=1\<close>).
\<close>

fun first_index :: "string \<Rightarrow> string \<Rightarrow> nat option" where
  "first_index sub [] = (if sub = [] then Some 0 else None)"
| "first_index sub (c # cs) =
     (if prefix sub (c # cs) then Some 0 else map_option Suc (first_index sub cs))"

text \<open>The highest index at which \<open>sub\<close> occurs (the search loop of \<open>rfind\<close>).\<close>

fun last_index :: "string \<Rightarrow> string \<Rightarrow> nat option" where
  "last_index sub [] = (if sub = [] then Some 0 else None)"
| "last_index sub (c # cs) =
     (case last_index sub cs of
        Some i \<Rightarrow> Some (Suc i)
      | None \<Rightarrow> if prefix sub (c # cs) then Some 0 else None)"

text \<open>\<open>s.find(sub)\<close> and \<open>s.rfind(sub)\<close>: the index, or \<open>-1\<close> when \<open>sub\<close> does not occur.\<close>

definition py_find :: "string \<Rightarrow> string \<Rightarrow> int" where
  "py_find s sub = (case first_index sub s of None \<Rightarrow> - 1 | Some i \<Rightarrow> int i)"

definition py_rfind :: "string \<Rightarrow> string \<Rightarrow> int" where
  "py_rfind s sub = (case last_index sub s of None \<Rightarrow> - 1 | Some i \<Rightarrow> int i)"

text \<open>
  A slice bound as Python normalises it: a negative bound counts from the end, and
  the result is clamped to \<open>0 .. len(s)\<close>.
\<close>

definition slice_bound :: "nat \<Rightarrow> int \<Rightarrow> nat" where
  "slice_bound n i = (if i < 0 then nat (max 0 (i + int n)) else min n (nat i))"

text \<open>\<open>s[start:end]\<close>: empty when the normalised start is not below the normalised end.\<close>

definition py_slice :: "string \<Rightarrow> int \<Rightarrow> int \<Rightarrow> string" where
  "py_slice s start end =
     (let lo = slice_bound (length s) start; hi = slice_bound (length s) end
      in take (hi - lo) (drop lo s))"

text \<open>\<open>s.strip("\n")\<close>: leading and trailing newline characters removed.\<close>

definition strip_newlines :: "string \<Rightarrow> string" where
  "strip_newlines s =
     rev (dropWhile (\<lambda>c. c = CHR ''\<newline>'') (rev (dropWhile (\<lambda>c. c = CHR ''\<newline>'') s)))"

text \<open>
  \<open>s.split(sep)\<close> for a non-empty separator: the string is cut at every occurrence of
  \<open>sep\<close>, scanning from the left and resuming after each occurrence; \<open>k\<close> occurrences
  give \<open>k + 1\<close> pieces, empty ones included. \<open>cur\<close> holds the piece being read, reversed.
  (Python raises on an empty separator; \<open>convert.py\<close> only passes the constant
  \<open>"---"\<close>, and with an empty separator the function below never cuts.)
\<close>

function split_from :: "string \<Rightarrow> string \<Rightarrow> string \<Rightarrow> string list" where
  "split_from sep cur [] = [rev cur]"
| "split_from sep cur (c # cs) =
     (if sep \<noteq> [] \<and> prefix sep (c # cs)
      then rev cur # split_from sep [] (drop (length sep) (c # cs))
      else split_from sep (c # cur) cs)"
  by pat_completeness auto
termination
  by (relation "measure (\<lambda>(sep, cur, rest). length rest)") (auto simp: neq_Nil_conv)

definition py_split :: "string \<Rightarrow> string \<Rightarrow> string list" where
  "py_split s sep = split_from sep [] s"

text \<open>
  \<open>s.split(sep, maxsplit=1)\<close>: cut at the first occurrence of \<open>sep\<close> only; a string
  without \<open>sep\<close> comes back whole, as the only piece.
\<close>

definition py_split_once :: "string \<Rightarrow> string \<Rightarrow> string list" where
  "py_split_once s sep =
     (case first_index sep s of
        None \<Rightarrow> [s]
      | Some i \<Rightarrow> [take i s, drop (i + length sep) s])"

text \<open>
  The characters at which \<open>splitlines\<close> ends a line (those with a code point below 256):
  line feed, carriage return, vertical tab, form feed, the file, group and record
  separators, and NEL.
\<close>

definition line_boundary :: "char \<Rightarrow> bool" where
  "line_boundary c \<longleftrightarrow>
     c \<in> set [CHR 0x0A, CHR 0x0D, CHR 0x0B, CHR 0x0C, CHR 0x1C, CHR 0x1D, CHR 0x1E, CHR 0x85]"

text \<open>
  \<open>s.splitlines()\<close>: the lines without their terminators; a carriage return followed
  by a line feed is one terminator; no empty line is reported after the last terminator,
  so the empty string has no lines.
\<close>

fun lines_from :: "string \<Rightarrow> string \<Rightarrow> string list" where
  "lines_from cur [] = (if cur = [] then [] else [rev cur])"
| "lines_from cur [c] = (if line_boundary c then [rev cur] else [rev (c # cur)])"
| "lines_from cur (c # d # cs) =
     (if c = CHR 0x0D \<and> d = CHR 0x0A then rev cur # lines_from [] cs
      else if line_boundary c then rev cur # lines_from [] (d # cs)
      else lines_from (c # cur) (d # cs))"

definition splitlines :: "string \<Rightarrow> string list" where
  "splitlines s = lines_from [] s"

section \<open>Record parsing\<close>

text \<open>\<open>key_value_from_line\<close>: one line of a record block, cut at its first \<open>": "\<close>.\<close>

definition key_value_from_line :: "string \<Rightarrow> string \<times> string" where
  "key_value_from_line key_value =
     (let splitted = py_split_once key_value '': ''
      in if length splitted = 1 then (splitted ! 0, '''')
         else (splitted ! 0, splitted ! 1))"

text \<open>
  A \<open>Dict[str, str]\<close> is a partial map. The dictionary comprehension stores the pairs
  from left to right, so a later pair with the same key overwrites an earlier one.
\<close>

type_synonym raw_entry = "string \<rightharpoonup> string"

definition dict_of_pairs :: "(string \<times> string) list \<Rightarrow> raw_entry" where
  "dict_of_pairs pairs = foldl (\<lambda>d pair. d(fst pair \<mapsto> snd pair)) Map.empty pairs"

definition parse_colon_separated_key_value_pairs :: "string \<Rightarrow> raw_entry" where
  "parse_colon_separated_key_value_pairs entry =
     (let stripped = strip_newlines entry;
          lines = splitlines stripped;
          key_value_pairs = map key_value_from_line lines
      in dict_of_pairs key_value_pairs)"

definition parse_entries_section :: "string \<Rightarrow> raw_entry list" where
  "parse_entries_section txt =
     (let entries = py_split txt ''---''
      in map parse_colon_separated_key_value_pairs entries)"

section \<open>Typed records\<close>

text \<open>
  The three pydantic models. Every field is an \<open>Optional[str]\<close> with default \<open>None\<close>.
  The fields \<open>login_name\<close>, \<open>login\<close>, \<open>password\<close> and \<open>comment\<close> of
  \<open>KasperskyApplicationEntry\<close> carry the prefix \<open>app_\<close> here, since a field name
  denotes one selector only; the field \<open>text\<close> is \<open>note_text\<close> and the field
  \<open>notes\<close> is \<open>notes_entries\<close>, since both words are reserved.
\<close>

record KasperskyWebsiteEntry =
  website_name :: "string option"
  website_url :: "string option"
  login_name :: "string option"
  login :: "string option"
  password :: "string option"
  comment :: "string option"

record KasperskyApplicationEntry =
  application_name :: "string option"
  app_login_name :: "string option"
  app_login :: "string option"
  app_password :: "string option"
  app_comment :: "string option"

record KasperskyNoteEntry =
  note_name :: "string option"
  note_text :: "string option"

record KasperskyPasswordManagerEntriesSet =
  websites :: "KasperskyWebsiteEntry list"
  applications :: "KasperskyApplicationEntry list"
  notes_entries :: "KasperskyNoteEntry list"

text \<open>
  How the model constructor \<open>Model(**entry)\<close> fills one field from the keyword
  arguments: the value stored under the field's alias; failing that, and only when the
  model's configuration accepts field names as well, the value stored under the field's
  own name; failing that, the default \<open>None\<close>. Keys that are neither are ignored,
  and the constructor is taken to accept every dictionary of strings.
  Whether the \<open>Config\<close> of \<open>BaseModelWithAliasesAndOriginalFields\<close> switches the
  second lookup on is decided by the installed pydantic release, so it is the parameter
  \<open>by_name\<close> throughout.
\<close>

definition populate :: "bool \<Rightarrow> raw_entry \<Rightarrow> string \<Rightarrow> string \<Rightarrow> string option" where
  "populate by_name data alias name =
     (case data alias of
        Some v \<Rightarrow> Some v
      | None \<Rightarrow> if by_name then data name else None)"

definition new_KasperskyWebsiteEntry :: "bool \<Rightarrow> raw_entry \<Rightarrow> KasperskyWebsiteEntry" where
  "new_KasperskyWebsiteEntry by_name data =
     \<lparr> website_name = populate by_name data ''Website name'' ''website_name'',
       website_url = populate by_name data ''Website URL'' ''website_url'',
       login_name = populate by_name data ''Login name'' ''login_name'',
       login = populate by_name data ''Login'' ''login'',
       password = populate by_name data ''Password'' ''password'',
       comment = populate by_name data ''Comment'' ''comment'' \<rparr>"

definition new_KasperskyApplicationEntry :: "bool \<Rightarrow> raw_entry \<Rightarrow> KasperskyApplicationEntry" where
  "new_KasperskyApplicationEntry by_name data =
     \<lparr> application_name = populate by_name data ''Application'' ''application_name'',
       app_login_name = populate by_name data ''Login name'' ''login_name'',
       app_login = populate by_name data ''Login'' ''login'',
       app_password = populate by_name data ''Password'' ''password'',
       app_comment = populate by_name data ''Comment'' ''comment'' \<rparr>"

definition new_KasperskyNoteEntry :: "bool \<Rightarrow> raw_entry \<Rightarrow> KasperskyNoteEntry" where
  "new_KasperskyNoteEntry by_name data =
     \<lparr> note_name = populate by_name data ''Name'' ''note_name'',
       note_text = populate by_name data ''Text'' ''text'' \<rparr>"


definition KasperskyApplicationEntry_name_must_contain_space :: "string \<Rightarrow> string" where
  "KasperskyApplicationEntry_name_must_contain_space v =
     (if \<not> startswith v ''https://'' \<or> startswith v ''http://''
      then ''https://'' @ v else v)"

section \<open>Section extraction\<close>

definition WEBSITES_IDENTIFIER :: string where
  "WEBSITES_IDENTIFIER = ''Websites\<newline>\<newline>''"

definition APPLICATIONS_IDENTIFIER :: string where
  "APPLICATIONS_IDENTIFIER = ''\<newline>\<newline>---\<newline>\<newline>Applications\<newline>\<newline>''"

definition NOTES_IDENTIFIER :: string where
  "NOTES_IDENTIFIER = ''\<newline>\<newline>---\<newline>\<newline>Notes\<newline>\<newline>''"

definition EOF_IDENTIFIER :: string where
  "EOF_IDENTIFIER = ''\<newline>\<newline>---\<newline>''"

definition extract_websites_from_txt_format :: "string \<Rightarrow> string" where
  "extract_websites_from_txt_format text_file_content =
     (let start_index = py_find text_file_content WEBSITES_IDENTIFIER
                          + int (length WEBSITES_IDENTIFIER);
          end_index = py_find text_file_content APPLICATIONS_IDENTIFIER
      in strip_newlines (py_slice text_file_content start_index end_index))"

definition extract_applications_from_txt_format :: "string \<Rightarrow> string" where
  "extract_applications_from_txt_format text_file_content =
     (let start_index = py_find text_file_content APPLICATIONS_IDENTIFIER
                          + int (length APPLICATIONS_IDENTIFIER);
          end_index = py_find text_file_content NOTES_IDENTIFIER
      in strip_newlines (py_slice text_file_content start_index end_index))"

definition extract_notes_from_txt_format :: "string \<Rightarrow> string" where
  "extract_notes_from_txt_format text_file_content =
     (let start_index = py_find text_file_content NOTES_IDENTIFIER
                          + int (length NOTES_IDENTIFIER);
          end_index = py_rfind text_file_content EOF_IDENTIFIER
      in strip_newlines (py_slice text_file_content start_index end_index))"

definition extract_entries_from_txt_format ::
  "bool \<Rightarrow> string \<Rightarrow> KasperskyPasswordManagerEntriesSet" where
  "extract_entries_from_txt_format by_name txt_file_content =
     (let websites_dicts =
            parse_entries_section (extract_websites_from_txt_format txt_file_content);
          applications_dicts =
            parse_entries_section (extract_applications_from_txt_format txt_file_content);
          notes_dicts =
            parse_entries_section (extract_notes_from_txt_format txt_file_content)
      in \<lparr> websites = map (new_KasperskyWebsiteEntry by_name) websites_dicts,
           applications = map (new_KasperskyApplicationEntry by_name) applications_dicts,
           notes_entries = map (new_KasperskyNoteEntry by_name) notes_dicts \<rparr>)"

section \<open>Table flattening\<close>

text \<open>
  A table cell is a string or \<open>None\<close>. The truth value Python gives an
  \<open>Optional[str]\<close> in a condition: \<open>None\<close> and the empty string are false.
\<close>

type_synonym cell = "string option"

fun truthy :: "string option \<Rightarrow> bool" where
  "truthy None = False"
| "truthy (Some s) = (s \<noteq> [])"

text \<open>
  The numpy and pandas calls of \<open>create_google_passwords_df_from_entries\<close>, modelled by
  the shape of what they build:
  \<^item> \<open>np.array\<close> of an empty list is a one-dimensional array of shape \<open>(0,)\<close>;
    of a non-empty list of rows of equal length it is two-dimensional, one row per list.
    When every cell of every row is a string, numpy stores the cells as fixed-width
    strings padded with NUL characters, and a cell read back has lost its trailing NUL
    characters; when some cell is \<open>None\<close>, the cells are stored as objects, unchanged;
  \<^item> \<open>np.concatenate(..., axis=0)\<close> raises \<open>ValueError\<close> when its arguments differ in
    their number of dimensions, and appends the rows otherwise (the two-dimensional
    arrays of this program all have four columns);
  \<^item> \<open>DataFrame(data, columns=...)\<close> reads a one-dimensional array as a single column
    and raises \<open>ValueError\<close> when the number of columns of the data is not the number
    of column names; \<open>DataFrame()\<close> has no column and no row.
\<close>

datatype error =
  ValueError_concatenate_dimensions
| ValueError_DataFrame_shape

datatype ndarray = Array1D_empty | Array2D "cell list list"

definition strip_trailing_nul :: "string \<Rightarrow> string" where
  "strip_trailing_nul s = rev (dropWhile (\<lambda>c. c = CHR 0x00) (rev s))"

definition all_strings :: "cell list list \<Rightarrow> bool" where
  "all_strings rows = list_all (list_all (\<lambda>c. c \<noteq> None)) rows"

definition np_stored :: "cell list list \<Rightarrow> cell list list" where
  "np_stored rows =
     (if all_strings rows then map (map (map_option strip_trailing_nul)) rows else rows)"

definition np_array :: "cell list list \<Rightarrow> ndarray" where
  "np_array rows = (if rows = [] then Array1D_empty else Array2D (np_stored rows))"

fun np_concatenate :: "ndarray \<Rightarrow> ndarray \<Rightarrow> error + ndarray" where
  "np_concatenate Array1D_empty Array1D_empty = Inr Array1D_empty"
| "np_concatenate (Array2D a) (Array2D b) = Inr (Array2D (a @ b))"
| "np_concatenate Array1D_empty (Array2D b) = Inl ValueError_concatenate_dimensions"
| "np_concatenate (Array2D a) Array1D_empty = Inl ValueError_concatenate_dimensions"

record DataFrame =
  df_columns :: "string list"
  df_rows :: "cell list list"

definition DataFrame_empty :: DataFrame where
  "DataFrame_empty = \<lparr> df_columns = [], df_rows = [] \<rparr>"

fun DataFrame_of :: "ndarray \<Rightarrow> string list \<Rightarrow> error + DataFrame" where
  "DataFrame_of Array1D_empty columns =
     (if length columns = 1 then Inr \<lparr> df_columns = columns, df_rows = [] \<rparr>
      else Inl ValueError_DataFrame_shape)"
| "DataFrame_of (Array2D rows) columns =
     (if list_all (\<lambda>row. length row = length columns) rows
      then Inr \<lparr> df_columns = columns, df_rows = rows \<rparr>
      else Inl ValueError_DataFrame_shape)"

text \<open>
  The two list comprehensions of \<open>create_google_passwords_df_from_entries\<close>: the rows
  built from the website entries and from the application entries that pass the
  \<open>if\<close> of the comprehension.
\<close>

definition websites_rows :: "KasperskyWebsiteEntry list \<Rightarrow> cell list list" where
  "websites_rows ws =
     [[website_url entry, login entry, password entry, comment entry].
        entry \<leftarrow> ws, truthy (website_url entry) \<and> truthy (website_name entry)]"

definition applications_rows :: "KasperskyApplicationEntry list \<Rightarrow> cell list list" where
  "applications_rows as =
     [[application_name entry, app_login entry, app_password entry, app_comment entry].
        entry \<leftarrow> as, truthy (application_name entry)]"

definition create_google_passwords_df_from_entries ::
  "KasperskyPasswordManagerEntriesSet \<Rightarrow> error + DataFrame" where
  "create_google_passwords_df_from_entries entries =
     (if websites entries = [] \<and> applications entries = [] then Inr DataFrame_empty
      else
        let websites_entries = np_array (websites_rows (websites entries));
            applications_entries = np_array (applications_rows (applications entries))
        in case np_concatenate websites_entries applications_entries of
             Inl e \<Rightarrow> Inl e
           | Inr a \<Rightarrow> DataFrame_of a [''url'', ''username'', ''password'', ''note''])"

text \<open>
  \<open>convert_txt_file_to_google_passwords_compatible_csv\<close>, from the content of the
  file on: extraction, then flattening.
\<close>

definition convert_txt_file_to_google_passwords_compatible_csv ::
  "bool \<Rightarrow> string \<Rightarrow> error + DataFrame" where
  "convert_txt_file_to_google_passwords_compatible_csv by_name content =
     create_google_passwords_df_from_entries (extract_entries_from_txt_format by_name content)"

text \<open>
  An export file as the format lays it out: the three section bodies between the
  four markers, in order.
\<close>

definition export_text :: "string \<Rightarrow> string \<Rightarrow> string \<Rightarrow> string" where
  "export_text websites_body applications_body notes_body =
     WEBSITES_IDENTIFIER @ websites_body @ APPLICATIONS_IDENTIFIER @ applications_body
       @ NOTES_IDENTIFIER @ notes_body @ EOF_IDENTIFIER"

section \<open>Export files used as concrete inputs\<close>

text \<open>The record block of the specification's example.\<close>

definition example_block :: string where
  "example_block =
     ''Website name: Example\<newline>Website URL: example.com\<newline>Login: bob\<newline>Password: secret1\<newline>Comment: work''"

text \<open>The example export: that block alone under Websites, nothing under Applications and Notes.\<close>

definition example_export :: string where
  "example_export = export_text example_block '''' ''''"

text \<open>An export with one application and no website.\<close>

definition application_block :: string where
  "application_block = ''Application: Mail\<newline>Login: al\<newline>Password: pw''"

definition application_only_export :: string where
  "application_only_export = export_text '''' application_block ''''"

text \<open>An export with the example website and one application.\<close>

definition mixed_export :: string where
  "mixed_export = export_text example_block application_block ''''"

text \<open>An export whose three sections are empty.\<close>

definition empty_export :: string where
  "empty_export = export_text '''' '''' ''''"

text \<open>An export whose Websites section ends with a record delimiter.\<close>

definition trailing_delimiter_export :: string where
  "trailing_delimiter_export = export_text ''Login: bob\<newline>---'' '''' ''''"

text \<open>The typed records in which no field is set.\<close>

definition blank_website :: KasperskyWebsiteEntry where
  "blank_website =
     \<lparr> website_name = None, website_url = None, login_name = None, login = None,
       password = None, comment = None \<rparr>"

definition blank_application :: KasperskyApplicationEntry where
  "blank_application =
     \<lparr> application_name = None, app_login_name = None, app_login = None,
       app_password = None, app_comment = None \<rparr>"

definition blank_note :: KasperskyNoteEntry where
  "blank_note = \<lparr> note_name = None, note_text = None \<rparr>"

text \<open>
  The number of record blocks of a section as the specification counts them: the
  pieces between the \<open>---\<close> delimiters, an empty piece after a trailing delimiter
  left out.
\<close>

definition spec_record_block_count :: "string \<Rightarrow> nat" where
  "spec_record_block_count section_text =
     (let blocks = py_split section_text ''---''
      in if 1 < length blocks \<and> last blocks = [] then length blocks - 1 else length blocks)"

text \<open>The typed records of the example website block and of the application block.\<close>

definition example_website :: KasperskyWebsiteEntry where
  "example_website =
     \<lparr> website_name = Some ''Example'', website_url = Some ''example.com'',
       login_name = None, login = Some ''bob'', password = Some ''secret1'',
       comment = Some ''work'' \<rparr>"

definition mail_application :: KasperskyApplicationEntry where
  "mail_application =
     \<lparr> application_name = Some ''Mail'', app_login_name = None, app_login = Some ''al'',
       app_password = Some ''pw'', app_comment = None \<rparr>"

text \<open>
  A website block whose \<open>Website URL\<close> line carries no value, the typed record it
  parses to, and an export holding that block, the example block and the application
  block.
\<close>

definition empty_url_block :: string where
  "empty_url_block =
     ''Website name: Shop\<newline>Website URL: \<newline>Login: carol\<newline>Password: hunter2''"

definition empty_url_website :: KasperskyWebsiteEntry where
  "empty_url_website =
     \<lparr> website_name = Some ''Shop'', website_url = Some '''',
       login_name = None, login = Some ''carol'', password = Some ''hunter2'',
       comment = None \<rparr>"

definition empty_url_export :: string where
  "empty_url_export =
     export_text (empty_url_block @ ''\<newline>---\<newline>'' @ example_block)
       application_block ''''"

text \<open>An application record whose name is the empty string.\<close>

definition empty_name_application :: KasperskyApplicationEntry where
  "empty_name_application =
     \<lparr> application_name = Some '''', app_login_name = None, app_login = Some ''al'',
       app_password = Some ''pw'', app_comment = None \<rparr>"

text \<open>
  The example block with a NUL character at the end of its URL and of its password,
  the typed record it parses to, and an export holding that block and the application
  block.
\<close>

definition nul_block :: string where
  "nul_block =
     ''Website name: Example\<newline>Website URL: example.com'' @ [CHR 0x00]
       @ ''\<newline>Login: bob\<newline>Password: secret1'' @ [CHR 0x00]
       @ ''\<newline>Comment: work''"

definition nul_website :: KasperskyWebsiteEntry where
  "nul_website =
     \<lparr> website_name = Some ''Example'', website_url = Some (''example.com'' @ [CHR 0x00]),
       login_name = None, login = Some ''bob'', password = Some (''secret1'' @ [CHR 0x00]),
       comment = Some ''work'' \<rparr>"

definition nul_export :: string where
  "nul_export = export_text nul_block application_block ''''"

text \<open>A text that holds none of the four markers.\<close>

definition no_marker_text :: string where
  "no_marker_text = ''abcdefghijklmnopqrstuvwxyz''"

section \<open>Facts about the string primitives\<close>

lemma first_index_None_iff: "first_index sub s = None \<longleftrightarrow> \<not> sublist sub s"
  by (induction s) (auto simp: sublist_Cons_right)

lemma first_index_colon_space:
  "\<not> sublist '': '' k \<Longrightarrow> first_index '': '' (k @ '': '' @ v) = Some (length k)"
proof (induction k)
  case Nil
  show ?case by simp
next
  case (Cons c k)
  from Cons.prems have np: "\<not> prefix '': '' (c # k)" and ns: "\<not> sublist '': '' k"
    by (auto simp: sublist_Cons_right)
  from np have "\<not> prefix '': '' (c # k @ '': '' @ v)"
    by (cases k) auto
  with Cons.IH [OF ns] show ?case by simp
qed

lemma key_value_from_line_separator:
  "\<not> sublist '': '' k \<Longrightarrow> key_value_from_line (k @ '': '' @ v) = (k, v)"
  using first_index_colon_space [of k v]
  by (simp add: key_value_from_line_def py_split_once_def)

lemma key_value_from_line_no_separator:
  "\<not> sublist '': '' line \<Longrightarrow> key_value_from_line line = (line, '''')"
  using first_index_None_iff [of "'': ''" line]
  by (simp add: key_value_from_line_def py_split_once_def)

lemma sublist_strip_newlines: "sublist (strip_newlines s) s"
proof -
  let ?d = "dropWhile (\<lambda>c. c = CHR ''\<newline>'') s"
  have "sublist (dropWhile (\<lambda>c. c = CHR ''\<newline>'') (rev ?d)) (rev ?d)" by simp
  then have "sublist (strip_newlines s) ?d"
    unfolding strip_newlines_def by (metis sublist_rev rev_rev_ident)
  moreover have "sublist ?d s" by simp
  ultimately show ?thesis by (rule sublist_order.order.trans)
qed

lemma sublist_py_slice: "sublist (py_slice s a b) s"
  unfolding py_slice_def Let_def
  by (rule sublist_order.order.trans [OF sublist_take sublist_drop])

lemma sublist_strip_slice: "sublist (strip_newlines (py_slice s a b)) s"
  by (rule sublist_order.order.trans [OF sublist_strip_newlines sublist_py_slice])

lemma last_index_None_iff: "last_index sub s = None \<longleftrightarrow> \<not> sublist sub s"
  by (induction s) (auto simp: sublist_Cons_right split: option.splits)

lemma py_find_absent: "\<not> sublist sub s \<Longrightarrow> py_find s sub = - 1"
  using first_index_None_iff [of sub s] by (simp add: py_find_def)

lemma py_rfind_absent: "\<not> sublist sub s \<Longrightarrow> py_rfind s sub = - 1"
  using last_index_None_iff [of sub s] by (simp add: py_rfind_def)

section \<open>Facts about splitting a section into record blocks\<close>

lemma split_from_nonempty: "split_from sep cur s \<noteq> []"
  by (induction sep cur s rule: split_from.induct) simp_all

lemma no_straddle:
  assumes "\<not> prefix ''---'' (c # cs)" and "last (c # cs) \<noteq> CHR ''-''"
  shows "\<not> prefix ''---'' (c # cs @ ''---'')"
proof (cases cs)
  case Nil
  with assms show ?thesis by simp
next
  case (Cons d ds)
  show ?thesis
  proof (cases ds)
    case Nil
    with Cons assms show ?thesis by simp
  next
    case (Cons e es)
    with \<open>cs = d # ds\<close> assms show ?thesis by simp
  qed
qed

lemma split_from_trailing_delimiter:
  "s = [] \<or> last s \<noteq> CHR ''-'' \<Longrightarrow>
   split_from ''---'' cur (s @ ''---'') = split_from ''---'' cur s @ [[]]"
proof (induction s arbitrary: cur rule: length_induct)
  case (1 s)
  note IH = "1.IH" [rule_format]
  show ?case
  proof (cases s)
    case Nil
    then show ?thesis by simp
  next
    case (Cons c cs)
    with "1.prems" have lst: "last (c # cs) \<noteq> CHR ''-''" by simp
    show ?thesis
    proof (cases "prefix ''---'' (c # cs)")
      case True
      then obtain rest where s': "c # cs = ''---'' @ rest"
        by (auto simp: prefix_def)
      with lst have rest: "rest = [] \<or> last rest \<noteq> CHR ''-''"
        by (cases rest) simp_all
      have "length rest < length s" using Cons s' by simp
      from IH [OF this rest]
      have step: "split_from ''---'' [] (rest @ ''---'') = split_from ''---'' [] rest @ [[]]" .
      have l: "split_from ''---'' cur ((''---'' @ rest) @ ''---'')
                 = rev cur # split_from ''---'' [] (rest @ ''---'')"
        by simp
      have r: "split_from ''---'' cur (''---'' @ rest) = rev cur # split_from ''---'' [] rest"
        by simp
      show ?thesis unfolding Cons s' l r step by simp
    next
      case False
      from no_straddle [OF False lst] have np: "\<not> prefix ''---'' (c # cs @ ''---'')" .
      from lst have "cs = [] \<or> last cs \<noteq> CHR ''-''"
        by (cases cs) simp_all
      moreover have "length cs < length s" using Cons by simp
      ultimately have step: "split_from ''---'' (c # cur) (cs @ ''---'')
          = split_from ''---'' (c # cur) cs @ [[]]"
        using IH by blast
      have l: "split_from ''---'' cur ((c # cs) @ ''---'') = split_from ''---'' (c # cur) (cs @ ''---'')"
        unfolding append_Cons
        by (subst split_from.simps(2)) (simp only: np simp_thms if_False)
      have r: "split_from ''---'' cur (c # cs) = split_from ''---'' (c # cur) cs"
        by (subst split_from.simps(2)) (simp only: False simp_thms if_False)
      show ?thesis unfolding Cons l r step ..
    qed
  qed
qed

lemma py_split_trailing_delimiter:
  "s = [] \<or> last s \<noteq> CHR ''-'' \<Longrightarrow>
   py_split (s @ ''---'') ''---'' = py_split s ''---'' @ ['''']"
  unfolding py_split_def by (rule split_from_trailing_delimiter)

lemma parse_entries_section_length:
  "length (parse_entries_section s) = length (py_split s ''---'')"
  by (simp add: parse_entries_section_def)

lemma extract_entries_lengths:
  "length (websites (extract_entries_from_txt_format by_name t))
     = length (py_split (extract_websites_from_txt_format t) ''---'')"
  "length (applications (extract_entries_from_txt_format by_name t))
     = length (py_split (extract_applications_from_txt_format t) ''---'')"
  "length (notes_entries (extract_entries_from_txt_format by_name t))
     = length (py_split (extract_notes_from_txt_format t) ''---'')"
  by (simp_all add: extract_entries_from_txt_format_def parse_entries_section_length)

section \<open>Facts about the table flattener\<close>

lemma websites_rows_filter:
  "websites_rows ws =
     map (\<lambda>entry. [website_url entry, login entry, password entry, comment entry])
       (filter (\<lambda>entry. truthy (website_url entry) \<and> truthy (website_name entry)) ws)"
  unfolding websites_rows_def by (induction ws) simp_all

lemma applications_rows_filter:
  "applications_rows as =
     map (\<lambda>entry. [application_name entry, app_login entry, app_password entry, app_comment entry])
       (filter (\<lambda>entry. truthy (application_name entry)) as)"
  unfolding applications_rows_def by (induction as) simp_all

lemma truthy_iff: "truthy x \<longleftrightarrow> x \<noteq> None \<and> x \<noteq> Some []"
  by (cases x) simp_all

lemma websites_rows_width: "list_all (\<lambda>row. length row = Suc (Suc (Suc (Suc 0)))) (websites_rows ws)"
  by (simp add: websites_rows_filter list_all_iff)

lemma applications_rows_width: "list_all (\<lambda>row. length row = Suc (Suc (Suc (Suc 0)))) (applications_rows as)"
  by (simp add: applications_rows_filter list_all_iff)

lemma create_no_entries:
  "websites es = [] \<Longrightarrow> applications es = [] \<Longrightarrow>
   create_google_passwords_df_from_entries es = Inr DataFrame_empty"
  by (simp add: create_google_passwords_df_from_entries_def)

lemma np_stored_length: "length (np_stored rows) = length rows"
  by (simp add: np_stored_def)

lemma np_stored_Nil_iff: "np_stored rows = [] \<longleftrightarrow> rows = []"
  by (simp add: np_stored_def)

lemma np_stored_width:
  "list_all (\<lambda>row. length row = n) rows \<Longrightarrow> list_all (\<lambda>row. length row = n) (np_stored rows)"
  by (simp add: np_stored_def list_all_iff)

lemma np_stored_nth:
  "i < length rows \<Longrightarrow> j < length (rows ! i) \<Longrightarrow>
   np_stored rows ! i ! j =
     (if all_strings rows then map_option strip_trailing_nul (rows ! i ! j) else rows ! i ! j)"
  by (simp add: np_stored_def)

lemma strip_trailing_nul_unchanged:
  "s = [] \<or> last s \<noteq> CHR 0x00 \<Longrightarrow> strip_trailing_nul s = s"
  by (cases s rule: rev_cases) (simp_all add: strip_trailing_nul_def)

lemma create_both_groups:
  assumes "websites_rows (websites es) \<noteq> []" and "applications_rows (applications es) \<noteq> []"
  shows "create_google_passwords_df_from_entries es =
           Inr \<lparr> df_columns = [''url'', ''username'', ''password'', ''note''],
                 df_rows = np_stored (websites_rows (websites es))
                             @ np_stored (applications_rows (applications es)) \<rparr>"
proof -
  from assms(1) have "websites es \<noteq> []" by (auto simp: websites_rows_def)
  with assms np_stored_width [OF websites_rows_width [of "websites es"]]
    np_stored_width [OF applications_rows_width [of "applications es"]]
  show ?thesis
    by (simp add: create_google_passwords_df_from_entries_def np_array_def)
qed

lemma create_one_group_raises:
  assumes "(websites_rows (websites es) = []) \<noteq> (applications_rows (applications es) = [])"
  shows "create_google_passwords_df_from_entries es = Inl ValueError_concatenate_dimensions"
proof -
  from assms have "websites es \<noteq> [] \<or> applications es \<noteq> []"
    by (auto simp: websites_rows_def applications_rows_def)
  with assms show ?thesis
    by (auto simp: create_google_passwords_df_from_entries_def np_array_def)
qed

lemma create_no_group_raises:
  assumes "websites es \<noteq> [] \<or> applications es \<noteq> []"
    and "websites_rows (websites es) = []" and "applications_rows (applications es) = []"
  shows "create_google_passwords_df_from_entries es = Inl ValueError_DataFrame_shape"
  using assms by (auto simp: create_google_passwords_df_from_entries_def np_array_def)

lemma create_returns_rows:
  assumes "create_google_passwords_df_from_entries es = Inr df"
  shows "df_rows df = np_stored (websites_rows (websites es))
                        @ np_stored (applications_rows (applications es))"
proof (cases "websites es = [] \<and> applications es = []")
  case True
  with assms show ?thesis
    by (auto simp: create_google_passwords_df_from_entries_def DataFrame_empty_def
        websites_rows_def applications_rows_def np_stored_def)
next
  case False
  show ?thesis
  proof (cases "websites_rows (websites es) = []")
    case wn: True
    show ?thesis
    proof (cases "applications_rows (applications es) = []")
      case True
      with wn False assms create_no_group_raises [of es] show ?thesis by auto
    next
      case False
      with wn assms create_one_group_raises [of es] show ?thesis by auto
    qed
  next
    case wn: False
    show ?thesis
    proof (cases "applications_rows (applications es) = []")
      case True
      with wn assms create_one_group_raises [of es] show ?thesis by auto
    next
      case False
      with wn assms create_both_groups [of es] show ?thesis by auto
    qed
  qed
qed

lemma website_cell_of_table:
  assumes "create_google_passwords_df_from_entries es = Inr df"
    and "qualifying =
           filter (\<lambda>entry. truthy (website_url entry) \<and> truthy (website_name entry))
             (websites es)"
    and "i < length qualifying" and "j < 4"
  shows "df_rows df ! i ! j =
           (if all_strings (websites_rows (websites es))
            then map_option strip_trailing_nul
                   ([website_url (qualifying ! i), login (qualifying ! i),
                     password (qualifying ! i), comment (qualifying ! i)] ! j)
            else [website_url (qualifying ! i), login (qualifying ! i),
                  password (qualifying ! i), comment (qualifying ! i)] ! j)"
proof -
  let ?W = "websites_rows (websites es)"
  from assms(2,3) have len: "i < length ?W" by (simp add: websites_rows_filter)
  from assms(2,3) have row: "?W ! i = [website_url (qualifying ! i), login (qualifying ! i),
      password (qualifying ! i), comment (qualifying ! i)]"
    by (simp add: websites_rows_filter)
  from len have "df_rows df ! i = np_stored ?W ! i"
    by (simp add: create_returns_rows [OF assms(1)] nth_append np_stored_length)
  moreover from assms(4) row have "j < length (?W ! i)" by simp
  ultimately show ?thesis using np_stored_nth [OF len, of j] row by simp
qed



section \<open>The pipeline on the concrete export files\<close>

lemmas marker_defs =
  WEBSITES_IDENTIFIER_def APPLICATIONS_IDENTIFIER_def NOTES_IDENTIFIER_def EOF_IDENTIFIER_def

lemmas extract_defs =
  extract_websites_from_txt_format_def extract_applications_from_txt_format_def
  extract_notes_from_txt_format_def py_find_def py_rfind_def py_slice_def slice_bound_def
  strip_newlines_def

lemmas parse_defs =
  parse_entries_section_def py_split_def parse_colon_separated_key_value_pairs_def
  strip_newlines_def splitlines_def line_boundary_def key_value_from_line_def
  py_split_once_def dict_of_pairs_def

lemmas record_defs =
  new_KasperskyWebsiteEntry_def new_KasperskyApplicationEntry_def new_KasperskyNoteEntry_def
  populate_def

lemma parse_empty_section: "parse_entries_section '''' = [Map.empty]"
  by (simp add: parse_defs)

lemma blank_records:
  "new_KasperskyWebsiteEntry by_name Map.empty = blank_website"
  "new_KasperskyApplicationEntry by_name Map.empty = blank_application"
  "new_KasperskyNoteEntry by_name Map.empty = blank_note"
  by (simp_all add: record_defs blank_website_def blank_application_def blank_note_def)

lemma example_block_record:
  "map (new_KasperskyWebsiteEntry by_name) (parse_entries_section example_block)
     = [example_website]"
  by (simp add: example_block_def parse_defs record_defs example_website_def)

lemma application_block_record:
  "map (new_KasperskyApplicationEntry by_name) (parse_entries_section application_block)
     = [mail_application]"
  by (simp add: application_block_def parse_defs record_defs mail_application_def)

lemma example_export_sections:
  "extract_websites_from_txt_format example_export = example_block"
  "extract_applications_from_txt_format example_export = ''''"
  "extract_notes_from_txt_format example_export = ''''"
  by (simp_all add: example_export_def export_text_def example_block_def marker_defs extract_defs)

lemma application_only_export_sections:
  "extract_websites_from_txt_format application_only_export = ''''"
  "extract_applications_from_txt_format application_only_export = application_block"
  "extract_notes_from_txt_format application_only_export = ''''"
  by (simp_all add: application_only_export_def export_text_def application_block_def
      marker_defs extract_defs)

lemma mixed_export_sections:
  "extract_websites_from_txt_format mixed_export = example_block"
  "extract_applications_from_txt_format mixed_export = application_block"
  "extract_notes_from_txt_format mixed_export = ''''"
  by (simp_all add: mixed_export_def export_text_def example_block_def application_block_def
      marker_defs extract_defs)

lemma empty_export_sections:
  "extract_websites_from_txt_format empty_export = ''''"
  "extract_applications_from_txt_format empty_export = ''''"
  "extract_notes_from_txt_format empty_export = ''''"
  by (simp_all add: empty_export_def export_text_def marker_defs extract_defs)

lemma trailing_delimiter_export_sections:
  "extract_websites_from_txt_format trailing_delimiter_export = ''Login: bob\<newline>---''"
  "extract_applications_from_txt_format trailing_delimiter_export = ''''"
  "extract_notes_from_txt_format trailing_delimiter_export = ''''"
  by (simp_all add: trailing_delimiter_export_def export_text_def marker_defs extract_defs)

lemma example_export_entries:
  "extract_entries_from_txt_format by_name example_export =
     \<lparr> websites = [example_website], applications = [blank_application],
       notes_entries = [blank_note] \<rparr>"
  by (simp add: extract_entries_from_txt_format_def example_export_sections
      example_block_record parse_empty_section blank_records)

lemma application_only_export_entries:
  "extract_entries_from_txt_format by_name application_only_export =
     \<lparr> websites = [blank_website], applications = [mail_application],
       notes_entries = [blank_note] \<rparr>"
  by (simp add: extract_entries_from_txt_format_def application_only_export_sections
      application_block_record parse_empty_section blank_records)

lemma mixed_export_entries:
  "extract_entries_from_txt_format by_name mixed_export =
     \<lparr> websites = [example_website], applications = [mail_application],
       notes_entries = [blank_note] \<rparr>"
  by (simp add: extract_entries_from_txt_format_def mixed_export_sections
      example_block_record application_block_record parse_empty_section blank_records)

lemma empty_export_entries:
  "extract_entries_from_txt_format by_name empty_export =
     \<lparr> websites = [blank_website], applications = [blank_application],
       notes_entries = [blank_note] \<rparr>"
  by (simp add: extract_entries_from_txt_format_def empty_export_sections
      parse_empty_section blank_records)

lemma empty_url_blocks:
  "py_split (empty_url_block @ ''\<newline>---\<newline>'' @ example_block) ''---''
     = [empty_url_block @ ''\<newline>'', ''\<newline>'' @ example_block]"
  by (simp add: py_split_def empty_url_block_def example_block_def)

lemma empty_url_block_record:
  "new_KasperskyWebsiteEntry by_name
     (parse_colon_separated_key_value_pairs (empty_url_block @ ''\<newline>''))
     = empty_url_website"
  by (simp add: empty_url_block_def parse_defs record_defs empty_url_website_def)

lemma second_block_record:
  "new_KasperskyWebsiteEntry by_name
     (parse_colon_separated_key_value_pairs (''\<newline>'' @ example_block))
     = example_website"
  by (simp add: example_block_def parse_defs record_defs example_website_def)

lemma empty_url_blocks_records:
  "map (new_KasperskyWebsiteEntry by_name)
     (parse_entries_section (empty_url_block @ ''\<newline>---\<newline>'' @ example_block))
     = [empty_url_website, example_website]"
  unfolding parse_entries_section_def Let_def empty_url_blocks
  by (simp only: list.map empty_url_block_record second_block_record)

lemma empty_url_export_sections:
  "extract_websites_from_txt_format empty_url_export
     = empty_url_block @ ''\<newline>---\<newline>'' @ example_block"
  "extract_applications_from_txt_format empty_url_export = application_block"
  "extract_notes_from_txt_format empty_url_export = ''''"
  by (simp_all add: empty_url_export_def export_text_def empty_url_block_def
      example_block_def application_block_def marker_defs extract_defs)

lemma empty_url_export_entries:
  "extract_entries_from_txt_format by_name empty_url_export =
     \<lparr> websites = [empty_url_website, example_website],
       applications = [mail_application], notes_entries = [blank_note] \<rparr>"
  unfolding extract_entries_from_txt_format_def Let_def empty_url_export_sections
  by (simp only: empty_url_blocks_records application_block_record parse_empty_section
      blank_records list.map)

lemma trailing_delimiter_blocks:
  "py_split ''Login: bob\<newline>---'' ''---'' = [''Login: bob\<newline>'', '''']"
  by (simp add: py_split_def)

lemma example_rows:
  "websites_rows [example_website]
     = [[Some ''example.com'', Some ''bob'', Some ''secret1'', Some ''work'']]"
  "websites_rows [blank_website] = []"
  "websites_rows [empty_url_website] = []"
  "websites_rows [empty_url_website, example_website]
     = [[Some ''example.com'', Some ''bob'', Some ''secret1'', Some ''work'']]"
  "applications_rows [mail_application] = [[Some ''Mail'', Some ''al'', Some ''pw'', None]]"
  "applications_rows [blank_application] = []"
  "applications_rows [empty_name_application] = []"
  by (simp_all add: websites_rows_def applications_rows_def example_website_def
      blank_website_def empty_url_website_def mail_application_def blank_application_def
      empty_name_application_def)

lemma nul_block_record:
  "map (new_KasperskyWebsiteEntry by_name) (parse_entries_section nul_block) = [nul_website]"
  by (simp add: nul_block_def parse_defs record_defs nul_website_def)

lemma nul_export_sections:
  "extract_websites_from_txt_format nul_export = nul_block"
  "extract_applications_from_txt_format nul_export = application_block"
  "extract_notes_from_txt_format nul_export = ''''"
  by (simp_all add: nul_export_def export_text_def nul_block_def application_block_def
      marker_defs extract_defs)

lemma nul_export_entries:
  "extract_entries_from_txt_format by_name nul_export =
     \<lparr> websites = [nul_website], applications = [mail_application],
       notes_entries = [blank_note] \<rparr>"
  by (simp add: extract_entries_from_txt_format_def nul_export_sections
      nul_block_record application_block_record parse_empty_section blank_records)

lemma nul_rows:
  "websites_rows [nul_website]
     = [[Some (''example.com'' @ [CHR 0x00]), Some ''bob'', Some (''secret1'' @ [CHR 0x00]),
         Some ''work'']]"
  by (simp add: websites_rows_def nul_website_def)

lemma stored_rows:
  "np_stored [[Some ''example.com'', Some ''bob'', Some ''secret1'', Some ''work'']]
     = [[Some ''example.com'', Some ''bob'', Some ''secret1'', Some ''work'']]"
  "np_stored [[Some ''Mail'', Some ''al'', Some ''pw'', None]]
     = [[Some ''Mail'', Some ''al'', Some ''pw'', None]]"
  "np_stored [[Some (''example.com'' @ [CHR 0x00]), Some ''bob'',
               Some (''secret1'' @ [CHR 0x00]), Some ''work'']]
     = [[Some ''example.com'', Some ''bob'', Some ''secret1'', Some ''work'']]"
  by (simp_all add: np_stored_def all_strings_def strip_trailing_nul_def)

lemma mixed_export_table:
  "create_google_passwords_df_from_entries (extract_entries_from_txt_format by_name mixed_export)
     = Inr \<lparr> df_columns = [''url'', ''username'', ''password'', ''note''],
             df_rows = [[Some ''example.com'', Some ''bob'', Some ''secret1'', Some ''work''],
                        [Some ''Mail'', Some ''al'', Some ''pw'', None]] \<rparr>"
  using create_both_groups [of "extract_entries_from_txt_format by_name mixed_export"]
  by (simp add: mixed_export_entries example_rows stored_rows)

lemma empty_url_export_table:
  "create_google_passwords_df_from_entries
       (extract_entries_from_txt_format by_name empty_url_export)
     = Inr \<lparr> df_columns = [''url'', ''username'', ''password'', ''note''],
             df_rows = [[Some ''example.com'', Some ''bob'', Some ''secret1'', Some ''work''],
                        [Some ''Mail'', Some ''al'', Some ''pw'', None]] \<rparr>"
  using create_both_groups [of "extract_entries_from_txt_format by_name empty_url_export"]
  by (simp add: empty_url_export_entries example_rows stored_rows)

lemma nul_export_table:
  "create_google_passwords_df_from_entries (extract_entries_from_txt_format by_name nul_export)
     = Inr \<lparr> df_columns = [''url'', ''username'', ''password'', ''note''],
             df_rows = [[Some ''example.com'', Some ''bob'', Some ''secret1'', Some ''work''],
                        [Some ''Mail'', Some ''al'', Some ''pw'', None]] \<rparr>"
  using create_both_groups [of "extract_entries_from_txt_format by_name nul_export"]
    stored_rows(3)
  by (simp add: nul_export_entries example_rows nul_rows stored_rows(2))

section \<open>Section extraction never fails\<close>

text \<open>
  Claim C6. For every input string, with or without the section markers, each of
  the three section-extraction functions returns a string, and that string is a
  contiguous piece of the input: \<open>find\<close> answers \<open>-1\<close> for an absent marker, the
  slice clamps whatever bounds the arithmetic on that answer gives, and nothing in
  the three functions can raise or report a failure. When both markers of a section
  are absent, the piece returned is the slice from the marker's length less one to the
  last character but one, stripped of newlines.
\<close>

theorem section_extraction_total:
  "sublist (extract_websites_from_txt_format t) t \<and>
   sublist (extract_applications_from_txt_format t) t \<and>
   sublist (extract_notes_from_txt_format t) t \<and>
   (\<not> sublist WEBSITES_IDENTIFIER t \<and> \<not> sublist APPLICATIONS_IDENTIFIER t \<longrightarrow>
      extract_websites_from_txt_format t = strip_newlines (py_slice t 9 (- 1))) \<and>
   (\<not> sublist APPLICATIONS_IDENTIFIER t \<and> \<not> sublist NOTES_IDENTIFIER t \<longrightarrow>
      extract_applications_from_txt_format t = strip_newlines (py_slice t 20 (- 1))) \<and>
   (\<not> sublist NOTES_IDENTIFIER t \<and> \<not> sublist EOF_IDENTIFIER t \<longrightarrow>
      extract_notes_from_txt_format t = strip_newlines (py_slice t 13 (- 1)))"
proof -
  have s: "sublist (extract_websites_from_txt_format t) t"
    "sublist (extract_applications_from_txt_format t) t"
    "sublist (extract_notes_from_txt_format t) t"
    by (simp_all add: extract_websites_from_txt_format_def
        extract_applications_from_txt_format_def extract_notes_from_txt_format_def Let_def
        sublist_strip_slice)
  have w: "extract_websites_from_txt_format t = strip_newlines (py_slice t 9 (- 1))"
    if "\<not> sublist WEBSITES_IDENTIFIER t" "\<not> sublist APPLICATIONS_IDENTIFIER t"
    using that
    by (simp add: extract_websites_from_txt_format_def py_find_absent)
      (simp add: WEBSITES_IDENTIFIER_def)
  have a: "extract_applications_from_txt_format t = strip_newlines (py_slice t 20 (- 1))"
    if "\<not> sublist APPLICATIONS_IDENTIFIER t" "\<not> sublist NOTES_IDENTIFIER t"
    using that
    by (simp add: extract_applications_from_txt_format_def py_find_absent)
      (simp add: APPLICATIONS_IDENTIFIER_def)
  have n: "extract_notes_from_txt_format t = strip_newlines (py_slice t 13 (- 1))"
    if "\<not> sublist NOTES_IDENTIFIER t" "\<not> sublist EOF_IDENTIFIER t"
    using that
    by (simp add: extract_notes_from_txt_format_def py_find_absent py_rfind_absent)
      (simp add: NOTES_IDENTIFIER_def)
  from s w a n show ?thesis by blast
qed

theorem section_extraction_total_witness:
  "\<not> sublist WEBSITES_IDENTIFIER no_marker_text \<and>
   \<not> sublist APPLICATIONS_IDENTIFIER no_marker_text \<and>
   \<not> sublist NOTES_IDENTIFIER no_marker_text \<and>
   \<not> sublist EOF_IDENTIFIER no_marker_text \<and>
   extract_websites_from_txt_format no_marker_text = ''jklmnopqrstuvwxy'' \<and>
   extract_applications_from_txt_format no_marker_text = ''uvwxy'' \<and>
   extract_notes_from_txt_format no_marker_text = ''nopqrstuvwxy''"
proof -
  have m: "\<not> sublist WEBSITES_IDENTIFIER no_marker_text"
    "\<not> sublist APPLICATIONS_IDENTIFIER no_marker_text"
    "\<not> sublist NOTES_IDENTIFIER no_marker_text"
    "\<not> sublist EOF_IDENTIFIER no_marker_text"
    unfolding first_index_None_iff [symmetric]
    by (simp_all add: no_marker_text_def WEBSITES_IDENTIFIER_def APPLICATIONS_IDENTIFIER_def
        NOTES_IDENTIFIER_def EOF_IDENTIFIER_def)
  have v: "strip_newlines (py_slice no_marker_text 9 (- 1)) = ''jklmnopqrstuvwxy''"
    "strip_newlines (py_slice no_marker_text 20 (- 1)) = ''uvwxy''"
    "strip_newlines (py_slice no_marker_text 13 (- 1)) = ''nopqrstuvwxy''"
    by (simp_all add: no_marker_text_def py_slice_def slice_bound_def strip_newlines_def)
  from section_extraction_total [of no_marker_text] m v show ?thesis by simp
qed

section \<open>Lines of a record block\<close>

text \<open>
  Claim C9. \<open>key_value_from_line\<close> cuts a line at the first \<open>": "\<close> only: a line made
  of a key without \<open>": "\<close>, the separator and any value (which may itself contain
  \<open>": "\<close>) gives that key and that value; a line without \<open>": "\<close> gives the whole line
  as the key and the empty string as the value. The function is total: every line
  has a result.
\<close>

theorem key_value_from_line_first_separator:
  "(\<not> sublist '': '' k \<longrightarrow> key_value_from_line (k @ '': '' @ v) = (k, v)) \<and>
   (\<not> sublist '': '' line \<longrightarrow> key_value_from_line line = (line, ''''))"
  using key_value_from_line_separator [of k v] key_value_from_line_no_separator [of line]
  by blast

theorem key_value_from_line_first_separator_witness:
  "\<not> sublist '': '' ''Comment'' \<and>
   key_value_from_line ''Comment: see: notes'' = (''Comment'', ''see: notes'') \<and>
   \<not> sublist '': '' ''Login'' \<and>
   key_value_from_line ''Login'' = (''Login'', '''')"
proof -
  have a: "\<not> sublist '': '' ''Comment''" by (simp add: sublist_Cons_right)
  have b: "\<not> sublist '': '' ''Login''" by (simp add: sublist_Cons_right)
  from key_value_from_line_first_separator [of "''Comment''" "''see: notes''" "''Login''"] a b
  show ?thesis by simp
qed

section \<open>The example of the specification\<close>

text \<open>
  Claim C1. On the example export (the block \<open>Website name: Example\<close>,
  \<open>Website URL: example.com\<close>, \<open>Login: bob\<close>, \<open>Password: secret1\<close>, \<open>Comment: work\<close>
  alone under Websites, nothing under Applications and Notes) the pipeline should give
  the single row \<open>example.com, bob, secret1, work\<close>. Extraction gives the website entry
  and one blank application entry; the website comprehension builds exactly that row and
  the application comprehension builds none; \<open>np.array\<close> of the empty list is
  one-dimensional, and \<open>np.concatenate\<close> raises \<open>ValueError\<close> instead of returning the
  table.
\<close>

theorem example_export_raises:
  "extract_entries_from_txt_format by_name example_export =
     \<lparr> websites = [example_website], applications = [blank_application],
       notes_entries = [blank_note] \<rparr> \<and>
   websites_rows (websites (extract_entries_from_txt_format by_name example_export))
     = [[Some ''example.com'', Some ''bob'', Some ''secret1'', Some ''work'']] \<and>
   applications_rows (applications (extract_entries_from_txt_format by_name example_export))
     = [] \<and>
   create_google_passwords_df_from_entries
       (extract_entries_from_txt_format by_name example_export)
     = Inl ValueError_concatenate_dimensions"
proof -
  let ?es = "extract_entries_from_txt_format by_name example_export"
  have w: "websites_rows (websites ?es)
             = [[Some ''example.com'', Some ''bob'', Some ''secret1'', Some ''work'']]"
    by (simp add: example_export_entries example_rows)
  have a: "applications_rows (applications ?es) = []"
    by (simp add: example_export_entries example_rows)
  from w a have "(websites_rows (websites ?es) = []) \<noteq> (applications_rows (applications ?es) = [])"
    by simp
  from create_one_group_raises [OF this] w a example_export_entries [of by_name]
  show ?thesis by simp
qed

section \<open>Row count and order of the table\<close>

text \<open>
  Claim C2. For an input with the four markers in order, extraction followed by
  flattening should return a table with one row per qualifying website and then one row
  per qualifying application. On the export with one application and no website (the
  four markers in order, one qualifying entry) the flattener raises \<open>ValueError\<close>: the
  website comprehension is empty, its array is one-dimensional, and \<open>np.concatenate\<close>
  refuses to join it to the two-dimensional application array.
\<close>

theorem application_only_export_raises:
  "application_only_export =
     WEBSITES_IDENTIFIER @ '''' @ APPLICATIONS_IDENTIFIER @ application_block
       @ NOTES_IDENTIFIER @ '''' @ EOF_IDENTIFIER \<and>
   length (websites_rows
       (websites (extract_entries_from_txt_format by_name application_only_export))) = 0 \<and>
   length (applications_rows
       (applications (extract_entries_from_txt_format by_name application_only_export))) = 1 \<and>
   convert_txt_file_to_google_passwords_compatible_csv by_name application_only_export
     = Inl ValueError_concatenate_dimensions"
proof -
  let ?es = "extract_entries_from_txt_format by_name application_only_export"
  have w: "websites_rows (websites ?es) = []"
    by (simp add: application_only_export_entries example_rows)
  have a: "applications_rows (applications ?es) = [[Some ''Mail'', Some ''al'', Some ''pw'', None]]"
    by (simp add: application_only_export_entries example_rows)
  from w a have "(websites_rows (websites ?es) = []) \<noteq> (applications_rows (applications ?es) = [])"
    by simp
  from create_one_group_raises [OF this] w a show ?thesis
    by (simp add: convert_txt_file_to_google_passwords_compatible_csv_def
        application_only_export_def export_text_def)
qed

section \<open>The table of an entry set without qualifying entries\<close>

text \<open>
  Claim C3. For an entry set in which no website and no application passes the filter,
  the flattener should return an empty table that carries the four column headers. On
  the export whose three sections are empty, extraction gives one blank entry in each
  sequence; no entry passes a filter, both comprehensions are empty, and the first
  \<open>if\<close> of the flattener does not fire, because it tests the entry lists and not the
  filtered ones. Both arrays are then one-dimensional, their concatenation is
  one-dimensional, and \<open>DataFrame\<close> raises \<open>ValueError\<close>: one column of data against
  four column names. No table is returned.
\<close>

theorem empty_export_raises:
  "extract_entries_from_txt_format by_name empty_export =
     \<lparr> websites = [blank_website], applications = [blank_application],
       notes_entries = [blank_note] \<rparr> \<and>
   websites_rows (websites (extract_entries_from_txt_format by_name empty_export)) = [] \<and>
   applications_rows (applications (extract_entries_from_txt_format by_name empty_export))
     = [] \<and>
   create_google_passwords_df_from_entries
       (extract_entries_from_txt_format by_name empty_export)
     = Inl ValueError_DataFrame_shape"
proof -
  let ?es = "extract_entries_from_txt_format by_name empty_export"
  have w: "websites_rows (websites ?es) = []"
    by (simp add: empty_export_entries example_rows)
  have a: "applications_rows (applications ?es) = []"
    by (simp add: empty_export_entries example_rows)
  have n: "websites ?es \<noteq> [] \<or> applications ?es \<noteq> []"
    by (simp add: empty_export_entries)
  from create_no_group_raises [OF n w a] w a empty_export_entries [of by_name]
  show ?thesis by simp
qed

section \<open>Which entries contribute a row\<close>

text \<open>
  Claim C4, as the code has it. The \<open>if\<close> of each comprehension tests truth values, so
  a website entry contributes a row, in its place among the website rows, if and only
  if \<open>website_url\<close> and \<open>website_name\<close> are both set and both non-empty; an application
  entry contributes a row if and only if \<open>application_name\<close> is set and non-empty. An
  entry whose discriminating field is the empty string contributes no row. Whenever the
  flattener returns a table, the table has exactly one row per contributed row: the
  website rows as numpy stores them, followed by the application rows as numpy stores
  them.
\<close>

theorem qualifying_entries:
  "websites_rows (ws1 @ [w] @ ws2) =
     websites_rows ws1
       @ (if website_url w \<noteq> None \<and> website_url w \<noteq> Some ''''
             \<and> website_name w \<noteq> None \<and> website_name w \<noteq> Some ''''
          then [[website_url w, login w, password w, comment w]] else [])
       @ websites_rows ws2 \<and>
   applications_rows (as1 @ [a] @ as2) =
     applications_rows as1
       @ (if application_name a \<noteq> None \<and> application_name a \<noteq> Some ''''
          then [[application_name a, app_login a, app_password a, app_comment a]] else [])
       @ applications_rows as2 \<and>
   (create_google_passwords_df_from_entries es = Inr df \<longrightarrow>
      df_rows df = np_stored (websites_rows (websites es))
                     @ np_stored (applications_rows (applications es)) \<and>
      length (df_rows df) = length (websites_rows (websites es))
                              + length (applications_rows (applications es)))"
proof -
  have "df_rows df = np_stored (websites_rows (websites es))
                     @ np_stored (applications_rows (applications es)) \<and>
      length (df_rows df) = length (websites_rows (websites es))
                              + length (applications_rows (applications es))"
    if "create_google_passwords_df_from_entries es = Inr df"
    using create_returns_rows [OF that] by (simp add: np_stored_length)
  moreover have "websites_rows (ws1 @ [w] @ ws2) =
     websites_rows ws1
       @ (if website_url w \<noteq> None \<and> website_url w \<noteq> Some ''''
             \<and> website_name w \<noteq> None \<and> website_name w \<noteq> Some ''''
          then [[website_url w, login w, password w, comment w]] else [])
       @ websites_rows ws2"
    by (simp add: websites_rows_filter truthy_iff)
  moreover have "applications_rows (as1 @ [a] @ as2) =
     applications_rows as1
       @ (if application_name a \<noteq> None \<and> application_name a \<noteq> Some ''''
          then [[application_name a, app_login a, app_password a, app_comment a]] else [])
       @ applications_rows as2"
    by (simp add: applications_rows_filter truthy_iff)
  ultimately show ?thesis by blast
qed

theorem qualifying_entries_witness:
  "websites_rows ([] @ [empty_url_website] @ [example_website])
     = [[Some ''example.com'', Some ''bob'', Some ''secret1'', Some ''work'']] \<and>
   applications_rows ([] @ [mail_application] @ [empty_name_application])
     = [[Some ''Mail'', Some ''al'', Some ''pw'', None]] \<and>
   create_google_passwords_df_from_entries (extract_entries_from_txt_format True mixed_export)
     = Inr \<lparr> df_columns = [''url'', ''username'', ''password'', ''note''],
             df_rows = [[Some ''example.com'', Some ''bob'', Some ''secret1'', Some ''work''],
                        [Some ''Mail'', Some ''al'', Some ''pw'', None]] \<rparr> \<and>
   df_rows \<lparr> df_columns = [''url'', ''username'', ''password'', ''note''],
             df_rows = [[Some ''example.com'', Some ''bob'', Some ''secret1'', Some ''work''],
                        [Some ''Mail'', Some ''al'', Some ''pw'', None]] \<rparr>
     = np_stored (websites_rows (websites (extract_entries_from_txt_format True mixed_export)))
         @ np_stored
             (applications_rows
                (applications (extract_entries_from_txt_format True mixed_export))) \<and>
   length (websites_rows (websites (extract_entries_from_txt_format True mixed_export)))
     + length (applications_rows
         (applications (extract_entries_from_txt_format True mixed_export))) = 2"
proof -
  let ?es = "extract_entries_from_txt_format True mixed_export"
  let ?df = "\<lparr> df_columns = [''url'', ''username'', ''password'', ''note''],
             df_rows = [[Some ''example.com'', Some ''bob'', Some ''secret1'', Some ''work''],
                        [Some ''Mail'', Some ''al'', Some ''pw'', None]] \<rparr>"
  have c: "create_google_passwords_df_from_entries ?es = Inr ?df"
    by (rule mixed_export_table)
  from qualifying_entries [of "[]" empty_url_website "[example_website]"
      "[]" mail_application "[empty_name_application]" ?es ?df] c
  show ?thesis
    by (simp add: example_rows websites_rows_filter applications_rows_filter
        example_website_def empty_url_website_def mail_application_def
        empty_name_application_def)
qed

text \<open>
  Claim C4 as stated fails on a website entry whose \<open>website_url\<close> is the empty string
  and on an application entry whose \<open>application_name\<close> is the empty string: the
  discriminating fields are set, and neither entry contributes a row.
\<close>

theorem empty_string_does_not_qualify:
  "website_url empty_url_website = Some '''' \<and>
   website_name empty_url_website = Some ''Shop'' \<and>
   websites_rows [empty_url_website] = [] \<and>
   application_name empty_name_application = Some '''' \<and>
   applications_rows [empty_name_application] = []"
  by (simp add: example_rows) (simp add: empty_url_website_def empty_name_application_def)

section \<open>Lengths of the entry sequences\<close>

text \<open>
  Claim C5, as the code has it. For every input text, each of the three sequences of
  the entry set has one entry per piece that \<open>split("---")\<close> cuts out of the section's
  text, empty pieces included: nothing discards the empty piece that follows a trailing
  delimiter. A section text followed by one more \<open>---\<close> has one more piece, the empty
  one (for a text that does not itself end in a hyphen, which would run into the
  delimiter).
\<close>

theorem entry_sequence_lengths:
  "length (websites (extract_entries_from_txt_format by_name t))
     = length (py_split (extract_websites_from_txt_format t) ''---'') \<and>
   length (applications (extract_entries_from_txt_format by_name t))
     = length (py_split (extract_applications_from_txt_format t) ''---'') \<and>
   length (notes_entries (extract_entries_from_txt_format by_name t))
     = length (py_split (extract_notes_from_txt_format t) ''---'') \<and>
   (s = [] \<or> last s \<noteq> CHR ''-'' \<longrightarrow>
      parse_entries_section (s @ ''---'') = parse_entries_section s @ [Map.empty])"
proof -
  have "parse_entries_section (s @ ''---'') = parse_entries_section s @ [Map.empty]"
    if "s = [] \<or> last s \<noteq> CHR ''-''"
  proof -
    have "parse_colon_separated_key_value_pairs '''' = Map.empty"
      by (simp add: parse_defs)
    with py_split_trailing_delimiter [OF that] show ?thesis
      by (simp add: parse_entries_section_def)
  qed
  with extract_entries_lengths [of by_name t] show ?thesis by blast
qed

theorem entry_sequence_lengths_witness:
  "length (websites (extract_entries_from_txt_format True trailing_delimiter_export)) = 2 \<and>
   length (applications (extract_entries_from_txt_format True trailing_delimiter_export)) = 1 \<and>
   length (notes_entries (extract_entries_from_txt_format True trailing_delimiter_export)) = 1 \<and>
   last ''Login: bob\<newline>'' \<noteq> CHR ''-'' \<and>
   parse_entries_section (''Login: bob\<newline>'' @ ''---'')
     = parse_entries_section ''Login: bob\<newline>'' @ [Map.empty]"
proof -
  have l: "''Login: bob\<newline>'' = [] \<or> last ''Login: bob\<newline>'' \<noteq> CHR ''-''" by simp
  have e: "py_split '''' ''---'' = ['''']" by (simp add: py_split_def)
  from entry_sequence_lengths
    [of True trailing_delimiter_export "''Login: bob\<newline>''"] l
  show ?thesis
    by (simp add: trailing_delimiter_export_sections trailing_delimiter_blocks e)
qed

text \<open>
  Claim C5 as stated fails on the export whose Websites section is
  \<open>Login: bob\<close>, a newline and a trailing \<open>---\<close>: the section has one record block
  once the empty block after the trailing delimiter is discarded, and the website
  sequence has two entries, the second one blank.
\<close>

theorem trailing_block_is_counted:
  "extract_websites_from_txt_format trailing_delimiter_export = ''Login: bob\<newline>---'' \<and>
   spec_record_block_count (extract_websites_from_txt_format trailing_delimiter_export) = 1 \<and>
   length (websites (extract_entries_from_txt_format True trailing_delimiter_export)) = 2 \<and>
   length (websites (extract_entries_from_txt_format False trailing_delimiter_export)) = 2 \<and>
   last (websites (extract_entries_from_txt_format True trailing_delimiter_export))
     = blank_website"
proof -
  have "parse_colon_separated_key_value_pairs '''' = Map.empty"
    by (simp add: parse_defs)
  then show ?thesis
    by (simp add: trailing_delimiter_export_sections trailing_delimiter_blocks
        spec_record_block_count_def extract_entries_lengths
        extract_entries_from_txt_format_def parse_entries_section_def blank_records)
qed

section \<open>The url and password columns\<close>




text \<open>
  Claim C8, as the code has it. For every website entry whose \<open>website_url\<close> and
  \<open>website_name\<close> are both set and non-empty (the entries that pass the filter) and
  whose \<open>password\<close> holds the string \<open>p\<close>: whenever the flattener returns a table, the
  row of that entry, at the entry's place among the passing website entries, has as its
  password cell \<open>p\<close> as numpy stores it: with its trailing NUL characters cut off when
  every cell of the website rows is a string, and \<open>p\<close> itself otherwise; so a \<open>p\<close>
  that does not end in a NUL character is in the table exactly.
\<close>

theorem password_column_is_stored_password:
  assumes "create_google_passwords_df_from_entries es = Inr df"
    and "qualifying =
           filter (\<lambda>entry. truthy (website_url entry) \<and> truthy (website_name entry))
             (websites es)"
    and "i < length qualifying"
    and "password (qualifying ! i) = Some p"
  shows "df_rows df ! i ! 2 =
           Some (if all_strings (websites_rows (websites es)) then strip_trailing_nul p else p) \<and>
         (p = [] \<or> last p \<noteq> CHR 0x00 \<longrightarrow> df_rows df ! i ! 2 = Some p)"
proof -
  have cell: "df_rows df ! i ! 2 =
           Some (if all_strings (websites_rows (websites es)) then strip_trailing_nul p else p)"
    using website_cell_of_table [OF assms(1,2,3), of 2] assms(4) by simp
  then have "df_rows df ! i ! 2 = Some p" if "p = [] \<or> last p \<noteq> CHR 0x00"
    using strip_trailing_nul_unchanged [OF that] by simp
  with cell show ?thesis by blast
qed

theorem password_column_is_stored_password_witness:
  "create_google_passwords_df_from_entries (extract_entries_from_txt_format False mixed_export)
     = Inr \<lparr> df_columns = [''url'', ''username'', ''password'', ''note''],
             df_rows = [[Some ''example.com'', Some ''bob'', Some ''secret1'', Some ''work''],
                        [Some ''Mail'', Some ''al'', Some ''pw'', None]] \<rparr> \<and>
   [example_website] =
     filter (\<lambda>entry. truthy (website_url entry) \<and> truthy (website_name entry))
       (websites (extract_entries_from_txt_format False mixed_export)) \<and>
   0 < length [example_website] \<and>
   password ([example_website] ! 0) = Some ''secret1'' \<and>
   last ''secret1'' \<noteq> CHR 0x00 \<and>
   df_rows \<lparr> df_columns = [''url'', ''username'', ''password'', ''note''],
             df_rows = [[Some ''example.com'', Some ''bob'', Some ''secret1'', Some ''work''],
                        [Some ''Mail'', Some ''al'', Some ''pw'', None]] \<rparr> ! 0 ! 2
     = Some ''secret1''"
proof -
  let ?es = "extract_entries_from_txt_format False mixed_export"
  let ?df = "\<lparr> df_columns = [''url'', ''username'', ''password'', ''note''],
             df_rows = [[Some ''example.com'', Some ''bob'', Some ''secret1'', Some ''work''],
                        [Some ''Mail'', Some ''al'', Some ''pw'', None]] \<rparr>"
  have c: "create_google_passwords_df_from_entries ?es = Inr ?df"
    by (rule mixed_export_table)
  have q: "[example_website] =
     filter (\<lambda>entry. truthy (website_url entry) \<and> truthy (website_name entry)) (websites ?es)"
    by (simp add: mixed_export_entries example_website_def)
  have l: "0 < length [example_website]" by simp
  have p: "password ([example_website] ! 0) = Some ''secret1''"
    by (simp add: example_website_def)
  have z: "last ''secret1'' \<noteq> CHR 0x00" by simp
  from password_column_is_stored_password [OF c q l p] z
  have r: "df_rows ?df ! 0 ! 2 = Some ''secret1''" by blast
  from c q l p z r show ?thesis by blast
qed

text \<open>
  Claim C8 as stated fails in two ways. On the export whose first website block has
  the lines \<open>Website name: Shop\<close>, \<open>Website URL: \<close> (no value), \<open>Login: carol\<close> and
  \<open>Password: hunter2\<close>, followed by the example block and one application, the first
  entry has both fields set and a password, the flattener returns a table, and the
  table has no row for that entry. On the export whose website block has the line
  \<open>Password: secret1\<close> with a NUL character at its end, all four cells of the row being
  strings, the password cell of the entry's row is \<open>secret1\<close> without the NUL
  character.
\<close>

theorem password_row_missing_or_cut:
  "websites (extract_entries_from_txt_format True empty_url_export)
     = [empty_url_website, example_website] \<and>
   website_url empty_url_website = Some '''' \<and>
   website_name empty_url_website = Some ''Shop'' \<and>
   password empty_url_website = Some ''hunter2'' \<and>
   create_google_passwords_df_from_entries (extract_entries_from_txt_format True empty_url_export)
     = Inr \<lparr> df_columns = [''url'', ''username'', ''password'', ''note''],
             df_rows = [[Some ''example.com'', Some ''bob'', Some ''secret1'', Some ''work''],
                        [Some ''Mail'', Some ''al'', Some ''pw'', None]] \<rparr> \<and>
   websites (extract_entries_from_txt_format True nul_export) = [nul_website] \<and>
   website_url nul_website = Some (''example.com'' @ [CHR 0x00]) \<and>
   website_name nul_website = Some ''Example'' \<and>
   password nul_website = Some (''secret1'' @ [CHR 0x00]) \<and>
   create_google_passwords_df_from_entries (extract_entries_from_txt_format True nul_export)
     = Inr \<lparr> df_columns = [''url'', ''username'', ''password'', ''note''],
             df_rows = [[Some ''example.com'', Some ''bob'', Some ''secret1'', Some ''work''],
                        [Some ''Mail'', Some ''al'', Some ''pw'', None]] \<rparr> \<and>
   Some ''secret1'' \<noteq> password nul_website"
  by (simp add: nul_export_table empty_url_export_table)
    (simp add: nul_export_entries empty_url_export_entries nul_website_def
      empty_url_website_def)

section \<open>Every section has at least one record\<close>

text \<open>
  Claim C10, as the code has it. For every section string, \<open>parse_entries_section\<close>
  returns at least one raw entry. On the empty string it returns exactly one, the empty
  dictionary: the empty string has no lines, so no pair is stored. An empty section
  therefore contributes exactly one typed record with every field \<open>None\<close>, and each
  of the three sequences of an extracted entry set has at least one entry.
\<close>

theorem sections_have_a_record:
  "parse_entries_section s \<noteq> [] \<and>
   parse_entries_section '''' = [Map.empty] \<and>
   (extract_websites_from_txt_format t = '''' \<longrightarrow>
      websites (extract_entries_from_txt_format by_name t) = [blank_website]) \<and>
   (extract_applications_from_txt_format t = '''' \<longrightarrow>
      applications (extract_entries_from_txt_format by_name t) = [blank_application]) \<and>
   (extract_notes_from_txt_format t = '''' \<longrightarrow>
      notes_entries (extract_entries_from_txt_format by_name t) = [blank_note]) \<and>
   1 \<le> length (websites (extract_entries_from_txt_format by_name t)) \<and>
   1 \<le> length (applications (extract_entries_from_txt_format by_name t)) \<and>
   1 \<le> length (notes_entries (extract_entries_from_txt_format by_name t))"
proof -
  have ne: "parse_entries_section u \<noteq> []" for u
    by (simp add: parse_entries_section_def py_split_def split_from_nonempty)
  then have len: "1 \<le> length (parse_entries_section u)" for u
    by (cases "parse_entries_section u") simp_all
  have w: "websites (extract_entries_from_txt_format by_name t) = [blank_website]"
    if "extract_websites_from_txt_format t = ''''"
    using that by (simp add: extract_entries_from_txt_format_def parse_empty_section blank_records)
  have a: "applications (extract_entries_from_txt_format by_name t) = [blank_application]"
    if "extract_applications_from_txt_format t = ''''"
    using that by (simp add: extract_entries_from_txt_format_def parse_empty_section blank_records)
  have n: "notes_entries (extract_entries_from_txt_format by_name t) = [blank_note]"
    if "extract_notes_from_txt_format t = ''''"
    using that by (simp add: extract_entries_from_txt_format_def parse_empty_section blank_records)
  have l: "1 \<le> length (websites (extract_entries_from_txt_format by_name t))"
    "1 \<le> length (applications (extract_entries_from_txt_format by_name t))"
    "1 \<le> length (notes_entries (extract_entries_from_txt_format by_name t))"
    using len by (simp_all add: extract_entries_from_txt_format_def)
  from ne [of s] parse_empty_section w a n l show ?thesis by blast
qed

theorem sections_have_a_record_witness:
  "extract_websites_from_txt_format empty_export = '''' \<and>
   websites (extract_entries_from_txt_format True empty_export) = [blank_website] \<and>
   extract_applications_from_txt_format empty_export = '''' \<and>
   applications (extract_entries_from_txt_format True empty_export) = [blank_application] \<and>
   extract_notes_from_txt_format empty_export = '''' \<and>
   notes_entries (extract_entries_from_txt_format True empty_export) = [blank_note] \<and>
   blank_website =
     \<lparr> website_name = None, website_url = None, login_name = None, login = None,
       password = None, comment = None \<rparr>"
  using sections_have_a_record [of "''''" empty_export True]
  by (simp add: empty_export_sections blank_website_def)

text \<open>
  Claim C10 as stated fails on the empty string: the one raw entry returned is the
  empty dictionary, not the dictionary that maps the empty key to the empty value.
\<close>

theorem empty_section_has_no_pair:
  "parse_entries_section '''' = [Map.empty] \<and>
   parse_entries_section '''' \<noteq> [['''' \<mapsto> '''']]"
proof -
  have "(Map.empty :: raw_entry) \<noteq> ['''' \<mapsto> '''']"
    by (metis map_upd_nonempty)
  with parse_empty_section show ?thesis by simp
qed

end
